theory Spec2Isabelle
  imports Main "HOL-Library.Word"
begin

section \<open>The TreeTagger adapter of treetagger3.py\<close>

text \<open>
  The module holds one helper, \<^verbatim>\<open>tUoB3\<close>, one table, \<^verbatim>\<open>_treetagger_languages\<close>, and the
  class \<^verbatim>\<open>TreeTagger\<close> with its constructor and its method \<^verbatim>\<open>tag\<close>. The class talks to
  the outside through \<^verbatim>\<open>nltk.internals.find_binary\<close>, \<^verbatim>\<open>subprocess.Popen\<close>,
  \<^verbatim>\<open>Popen.communicate\<close> and \<^verbatim>\<open>print\<close>; these are parameters of the model
  (\<open>os_env\<close>), and every call of them is written to a log of effects.
\<close>

subsection \<open>Python values\<close>

text \<open>
  A Python 3 \<^verbatim>\<open>str\<close> is a sequence of code points, a \<^verbatim>\<open>bytes\<close> object a sequence of
  octets. \<open>ustr\<close> and \<open>bstr\<close> read an ASCII literal as the one and as the other.
\<close>

type_synonym codepoint = nat
type_synonym pystr = "codepoint list"
type_synonym byte = "8 word"
type_synonym pybytes = "byte list"

definition ustr :: "string \<Rightarrow> pystr" where
  "ustr s = map of_char s"

definition bstr :: "string \<Rightarrow> pybytes" where
  "bstr s = map of_char s"

definition NL :: codepoint where
  "NL = 10"

definition TAB :: codepoint where
  "TAB = 9"

datatype pyobj = Str pystr | Bytes pybytes

text \<open>The exceptions that the module or the built-ins it calls can raise, with their message.\<close>

datatype pyerror =
    LookupError pystr
  | OSError pystr
  | TypeError
  | AttributeError
  | UnicodeEncodeError
  | UnicodeDecodeError

fun is_OSError :: "pyerror \<Rightarrow> bool" where
  "is_OSError (OSError m) = True"
| "is_OSError e = False"

text \<open>
  What an exception carries: its \<^verbatim>\<open>args\<close>. The exceptions raised by the module itself are
  built from one message string.
\<close>

fun error_args :: "pyerror \<Rightarrow> pyobj list" where
  "error_args (LookupError m) = [Str m]"
| "error_args (OSError m) = [Str m]"
| "error_args e = []"

subsection \<open>Built-in string operations\<close>

text \<open>
  \<^verbatim>\<open>str.isspace\<close> for one code point: the ASCII white space 0x09 to 0x0D, 0x1C to 0x1F and
  0x20, and the Unicode white space beyond it.
\<close>

definition isspace :: "codepoint \<Rightarrow> bool" where
  "isspace c \<longleftrightarrow>
     (9 \<le> c \<and> c \<le> 13) \<or> (28 \<le> c \<and> c \<le> 32) \<or> c = 0x85 \<or> c = 0xA0 \<or> c = 0x1680 \<or>
     (0x2000 \<le> c \<and> c \<le> 0x200A) \<or> c = 0x2028 \<or> c = 0x2029 \<or> c = 0x202F \<or>
     c = 0x205F \<or> c = 0x3000"

definition lstrip :: "pystr \<Rightarrow> pystr" where
  "lstrip s = dropWhile isspace s"

definition rstrip :: "pystr \<Rightarrow> pystr" where
  "rstrip s = rev (dropWhile isspace (rev s))"

text \<open>\<^verbatim>\<open>s.strip()\<close>: the white space at both ends goes, whatever its length.\<close>

definition strip :: "pystr \<Rightarrow> pystr" where
  "strip s = rstrip (lstrip s)"

text \<open>
  \<^verbatim>\<open>s.split(sep)\<close> for a separator of one character: the pieces between the separators, empty
  pieces kept, so that the result is never empty.
\<close>

fun split :: "'a \<Rightarrow> 'a list \<Rightarrow> 'a list list" where
  "split sep [] = [[]]"
| "split sep (x # xs) =
     (if x = sep then [] # split sep xs
      else (case split sep xs of
              [] \<Rightarrow> [[x]]
            | piece # pieces \<Rightarrow> (x # piece) # pieces))"

text \<open>\<^verbatim>\<open>sep.join(xs)\<close> for a separator of one character.\<close>

fun join :: "'a \<Rightarrow> 'a list list \<Rightarrow> 'a list" where
  "join sep [] = []"
| "join sep [x] = x"
| "join sep (x # y # ys) = x @ sep # join sep (y # ys)"

subsection \<open>Codecs\<close>

text \<open>
  The two codecs of the language table. Latin-1 maps an octet to the code point of the same
  number; UTF-8 is the strict codec of Python 3, which refuses surrogates, overlong forms and
  values beyond 0x10FFFF.
\<close>

definition latin1_encode :: "pystr \<Rightarrow> pyerror + pybytes" where
  "latin1_encode s =
     (if list_all (\<lambda>c. c < 256) s then Inr (map of_nat s) else Inl UnicodeEncodeError)"

definition latin1_decode :: "pybytes \<Rightarrow> pyerror + pystr" where
  "latin1_decode b = Inr (map unat b)"

definition utf8_encode_char :: "codepoint \<Rightarrow> pybytes option" where
  "utf8_encode_char c =
     (if c < 0x80 then Some [of_nat c]
      else if c < 0x800 then Some [of_nat (0xC0 + c div 64), of_nat (0x80 + c mod 64)]
      else if 0xD800 \<le> c \<and> c \<le> 0xDFFF then None
      else if c < 0x10000 then
        Some [of_nat (0xE0 + c div 4096), of_nat (0x80 + c div 64 mod 64),
              of_nat (0x80 + c mod 64)]
      else if c < 0x110000 then
        Some [of_nat (0xF0 + c div 262144), of_nat (0x80 + c div 4096 mod 64),
              of_nat (0x80 + c div 64 mod 64), of_nat (0x80 + c mod 64)]
      else None)"

fun utf8_encode :: "pystr \<Rightarrow> pyerror + pybytes" where
  "utf8_encode [] = Inr []"
| "utf8_encode (c # cs) =
     (case utf8_encode_char c of
        None \<Rightarrow> Inl UnicodeEncodeError
      | Some b \<Rightarrow> (case utf8_encode cs of Inl e \<Rightarrow> Inl e | Inr bs \<Rightarrow> Inr (b @ bs)))"

definition cont :: "byte \<Rightarrow> bool" where
  "cont b \<longleftrightarrow> 0x80 \<le> unat b \<and> unat b \<le> 0xBF"

definition low6 :: "byte \<Rightarrow> nat" where
  "low6 b = unat b mod 64"

text \<open>
  One code point from the front of the octets, with the octets left; \<open>None\<close> where the
  strict decoder raises.
\<close>

definition utf8_decode_char :: "pybytes \<Rightarrow> (codepoint \<times> pybytes) option" where
  "utf8_decode_char bs =
     (case bs of
        [] \<Rightarrow> None
      | b0 # r0 \<Rightarrow>
          let n = unat b0 in
          if n < 0x80 then Some (n, r0)
          else if 0xC2 \<le> n \<and> n \<le> 0xDF then
            (case r0 of
               b1 # r1 \<Rightarrow>
                 if cont b1 then Some ((n - 0xC0) * 64 + low6 b1, r1) else None
             | _ \<Rightarrow> None)
          else if 0xE0 \<le> n \<and> n \<le> 0xEF then
            (case r0 of
               b1 # b2 # r2 \<Rightarrow>
                 if cont b1 \<and> cont b2 \<and> (if n = 0xE0 then 0xA0 else 0x80) \<le> unat b1
                    \<and> unat b1 \<le> (if n = 0xED then 0x9F else 0xBF)
                 then Some ((n - 0xE0) * 4096 + low6 b1 * 64 + low6 b2, r2) else None
             | _ \<Rightarrow> None)
          else if 0xF0 \<le> n \<and> n \<le> 0xF4 then
            (case r0 of
               b1 # b2 # b3 # r3 \<Rightarrow>
                 if cont b1 \<and> cont b2 \<and> cont b3
                    \<and> (if n = 0xF0 then 0x90 else 0x80) \<le> unat b1
                    \<and> unat b1 \<le> (if n = 0xF4 then 0x8F else 0xBF)
                 then Some ((n - 0xF0) * 262144 + low6 b1 * 4096 + low6 b2 * 64 + low6 b3, r3)
                 else None
             | _ \<Rightarrow> None)
          else None)"

lemma utf8_decode_char_shorter:
  "utf8_decode_char bs = Some (c, r) \<Longrightarrow> length r < length bs"
  by (auto simp: utf8_decode_char_def Let_def split: list.splits if_splits)

function utf8_decode :: "pybytes \<Rightarrow> pyerror + pystr" where
  "utf8_decode bs =
     (if bs = [] then Inr []
      else (case utf8_decode_char bs of
              None \<Rightarrow> Inl UnicodeDecodeError
            | Some (c, r) \<Rightarrow>
                (case utf8_decode r of Inl e \<Rightarrow> Inl e | Inr cs \<Rightarrow> Inr (c # cs))))"
  by pat_completeness auto
termination
  by (relation "measure length") (auto dest: utf8_decode_char_shorter)

declare utf8_decode.simps [simp del]

text \<open>
  \<^verbatim>\<open>s.encode(encoding)\<close> and \<^verbatim>\<open>str(b, encoding)\<close> for the two names of the language table.
  Python knows more codecs and more spellings of these two; no adapter that the constructor
  returns has any other name, and the model answers with the \<^verbatim>\<open>LookupError\<close> of an unknown
  codec there.
\<close>

definition encode :: "pystr \<Rightarrow> pystr \<Rightarrow> pyerror + pybytes" where
  "encode encoding s =
     (if encoding = ustr ''utf-8'' then utf8_encode s
      else if encoding = ustr ''latin-1'' then latin1_encode s
      else Inl (LookupError (ustr ''unknown encoding'')))"

definition decode :: "pystr \<Rightarrow> pybytes \<Rightarrow> pyerror + pystr" where
  "decode encoding b =
     (if encoding = ustr ''utf-8'' then utf8_decode b
      else if encoding = ustr ''latin-1'' then latin1_decode b
      else Inl (LookupError (ustr ''unknown encoding'')))"

subsection \<open>The module\<close>

text \<open>
  \<^verbatim>\<open>tUoB3(obj, encoding='utf-8')\<close>: \<^verbatim>\<open>str(obj, encoding)\<close> decodes a \<^verbatim>\<open>bytes\<close> object and
  raises \<^verbatim>\<open>TypeError\<close> ("decoding str is not supported") on a \<^verbatim>\<open>str\<close>. Both kinds of
  \<open>pyobj\<close> take the branch of the conversion, so the function returns a \<^verbatim>\<open>str\<close> or raises.
\<close>

fun tUoB3 :: "pyobj \<Rightarrow> pystr \<Rightarrow> pyerror + pystr" where
  "tUoB3 (Str s) encoding = Inl TypeError"
| "tUoB3 (Bytes b) encoding = decode encoding b"

definition tUoB3_default_encoding :: pystr where
  "tUoB3_default_encoding = ustr ''utf-8''"

definition treetagger_languages :: "(pystr \<times> pystr list) list" where
  "treetagger_languages =
     [(ustr ''latin-1'',
        [ustr ''latin'', ustr ''latinIT'', ustr ''mongolian'', ustr ''swahili'']),
      (ustr ''utf-8'',
        [ustr ''bulgarian'', ustr ''dutch'', ustr ''english'', ustr ''estonian'',
         ustr ''finnish'', ustr ''french'', ustr ''galician'', ustr ''german'',
         ustr ''italian'', ustr ''polish'', ustr ''russian'', ustr ''slovak'',
         ustr ''slovak2'', ustr ''spanish''])]"

text \<open>The fields of an instance: \<^verbatim>\<open>_abbr_list\<close>, \<^verbatim>\<open>_encoding\<close>, \<^verbatim>\<open>_treetagger_bin\<close>.\<close>

record TreeTagger =
  abbr_list :: "pystr option"
  encoding_of :: pystr
  treetagger_bin :: pystr

text \<open>The keyword arguments of \<^verbatim>\<open>Popen\<close> that the module sets.\<close>

datatype stream = PIPE | Inherited

record popen_call =
  args :: "pystr list"
  shell :: bool
  stdin :: stream
  stdout :: stream
  stderr :: stream

record completed =
  returncode :: int
  stdout_data :: pybytes
  stderr_data :: pybytes

text \<open>
  The outside: \<open>find_binary\<close> gets the name of the binary, \<^verbatim>\<open>path_to_home\<close> and
  \<^verbatim>\<open>verbose\<close> (the environment variables, the search path and the URL are constants of the
  constructor) and returns a path or raises; \<open>launch\<close> is \<^verbatim>\<open>Popen(...)\<close>, which raises
  where the binary cannot be started; \<open>communicate\<close> feeds the child its input and waits
  for its end.
\<close>

record os_env =
  find_binary :: "pystr \<Rightarrow> pystr option \<Rightarrow> bool \<Rightarrow> pyerror + pystr"
  launch :: "popen_call \<Rightarrow> pyerror option"
  communicate :: "popen_call \<Rightarrow> pybytes \<Rightarrow> completed"

datatype effect =
    FindBinary pystr
  | Popen popen_call
  | Communicate pybytes
  | Print pyobj

subsubsection \<open>The constructor\<close>

definition known_pair :: "pystr \<Rightarrow> pystr \<Rightarrow> bool" where
  "known_pair encoding language =
     (case map_of treetagger_languages encoding of
        None \<Rightarrow> False
      | Some languages \<Rightarrow> language \<in> set languages)"

record init_outcome =
  init_effects :: "effect list"
  init_result :: "pyerror + TreeTagger"

text \<open>
  \<^verbatim>\<open>__init__(self, path_to_home, language, encoding, verbose, abbreviation_list)\<close>. The
  handler of \<^verbatim>\<open>KeyError\<close> raises the same \<^verbatim>\<open>LookupError\<close> as the \<^verbatim>\<open>else\<close> branch.
\<close>

definition init ::
  "os_env \<Rightarrow> pystr option \<Rightarrow> pystr \<Rightarrow> pystr \<Rightarrow> bool \<Rightarrow> pystr option \<Rightarrow> init_outcome" where
  "init env path_to_home language encoding verbose abbreviation_list =
     (if known_pair encoding language then
        let encoding' = (if encoding = ustr ''latin-1'' then ustr ''latin-1'' else encoding);
            treetagger_bin_name = ustr ''tree-tagger-'' @ language
        in (case find_binary env treetagger_bin_name path_to_home verbose of
              Inl e \<Rightarrow>
                \<lparr>init_effects = [FindBinary treetagger_bin_name], init_result = Inl e\<rparr>
            | Inr path \<Rightarrow>
                \<lparr>init_effects = [FindBinary treetagger_bin_name],
                 init_result = Inr \<lparr>abbr_list = abbreviation_list, encoding_of = encoding',
                                     treetagger_bin = path\<rparr>\<rparr>)
      else \<lparr>init_effects = [],
            init_result =
              Inl (LookupError (ustr ''NLTK was unable to find the TreeTagger bin!''))\<rparr>)"

subsubsection \<open>The method tag\<close>

datatype sentences = ListArg "pyobj list" | ObjArg pyobj

text \<open>
  Lines 130 to 133: a list is joined with newlines (\<^verbatim>\<open>str.join\<close> raises \<^verbatim>\<open>TypeError\<close> on an
  item that is no \<^verbatim>\<open>str\<close>), anything else is taken as it is.
\<close>

fun the_strs :: "pyobj list \<Rightarrow> pystr list option" where
  "the_strs [] = Some []"
| "the_strs (Str s # xs) = (case the_strs xs of None \<Rightarrow> None | Some ss \<Rightarrow> Some (s # ss))"
| "the_strs (Bytes b # xs) = None"

fun tag_join :: "sentences \<Rightarrow> pyerror + pyobj" where
  "tag_join (ListArg xs) =
     (case the_strs xs of None \<Rightarrow> Inl TypeError | Some ss \<Rightarrow> Inr (Str (join NL ss)))"
| "tag_join (ObjArg x) = Inr x"

text \<open>Lines 135 and 136: a \<^verbatim>\<open>str\<close> is encoded when the encoding is not the empty string.\<close>

fun tag_encode :: "pystr \<Rightarrow> pyobj \<Rightarrow> pyerror + pyobj" where
  "tag_encode encoding (Str s) =
     (if encoding \<noteq> [] then
        (case encode encoding s of Inl e \<Rightarrow> Inl e | Inr b \<Rightarrow> Inr (Bytes b))
      else Inr (Str s))"
| "tag_encode encoding (Bytes b) = Inr (Bytes b)"

text \<open>Lines 127 to 136 together: what \<^verbatim>\<open>_input\<close> holds when the child is started.\<close>

definition tag_input :: "TreeTagger \<Rightarrow> sentences \<Rightarrow> pyerror + pyobj" where
  "tag_input self sents =
     (case tag_join sents of
        Inl e \<Rightarrow> Inl e
      | Inr joined \<Rightarrow> tag_encode (encoding_of self) joined)"

text \<open>Lines 139 to 144: the call of \<^verbatim>\<open>Popen\<close>.\<close>

definition tag_popen :: "TreeTagger \<Rightarrow> popen_call" where
  "tag_popen self =
     (case abbr_list self of
        None \<Rightarrow>
          \<lparr>args = [treetagger_bin self],
           shell = False, stdin = PIPE, stdout = PIPE, stderr = PIPE\<rparr>
      | Some a \<Rightarrow>
          \<lparr>args = [treetagger_bin self, ustr ''-a'', a],
           shell = False, stdin = PIPE, stdout = PIPE, stderr = PIPE\<rparr>)"

text \<open>
  Lines 153 to 156. The pipes are binary, so \<^verbatim>\<open>communicate\<close> returns \<^verbatim>\<open>bytes\<close>; a \<^verbatim>\<open>str\<close>
  has no method \<^verbatim>\<open>decode\<close> in Python 3. \<^verbatim>\<open>tUoB3\<close> is called with one argument.
\<close>

fun tag_decode :: "pystr \<Rightarrow> pyobj \<Rightarrow> pyerror + pystr" where
  "tag_decode encoding (Str s) =
     (if encoding \<noteq> [] then Inl AttributeError else tUoB3 (Str s) tUoB3_default_encoding)"
| "tag_decode encoding (Bytes b) = tUoB3 (Bytes b) tUoB3_default_encoding"

text \<open>Lines 159 to 164: the loop over the lines of the stripped output.\<close>

fun tag_loop :: "pystr list \<Rightarrow> pystr list list \<Rightarrow> pystr list list" where
  "tag_loop [] tagged_sentences = tagged_sentences"
| "tag_loop (tagged_word # rest) tagged_sentences =
     tag_loop rest (tagged_sentences @ [split TAB tagged_word])"

definition tag_records :: "pystr \<Rightarrow> pystr list list" where
  "tag_records treetagger_output = tag_loop (split NL (strip treetagger_output)) []"

record tag_outcome =
  effects :: "effect list"
  self_after :: TreeTagger
  result :: "pyerror + pystr list list"

definition raise :: "TreeTagger \<Rightarrow> effect list \<Rightarrow> pyerror \<Rightarrow> tag_outcome" where
  "raise self es e = \<lparr>effects = es, self_after = self, result = Inl e\<rparr>"

text \<open>
  \<^verbatim>\<open>tag(self, sentences)\<close>. No statement of the method assigns to a field of \<^verbatim>\<open>self\<close>.
  \<^verbatim>\<open>communicate\<close> on a binary pipe raises \<^verbatim>\<open>TypeError\<close> when its input is a \<^verbatim>\<open>str\<close>.
\<close>

definition tag :: "os_env \<Rightarrow> TreeTagger \<Rightarrow> sentences \<Rightarrow> tag_outcome" where
  "tag env self sents =
     (let encoding = encoding_of self in
      case tag_input self sents of
        Inl e \<Rightarrow> raise self [] e
      | Inr input \<Rightarrow>
     (let p = tag_popen self in
      case launch env p of
        Some e \<Rightarrow> raise self [Popen p] e
      | None \<Rightarrow>
     (case input of
        Str s \<Rightarrow> raise self [Popen p] TypeError
      | Bytes b \<Rightarrow>
     (let child = communicate env p b in
      if returncode child \<noteq> 0 then
        raise self [Popen p, Communicate b, Print (Bytes (stderr_data child))]
          (OSError (ustr ''TreeTagger command failed!''))
      else
     (case tag_decode encoding (Bytes (stdout_data child)) of
        Inl e \<Rightarrow> raise self [Popen p, Communicate b] e
      | Inr treetagger_output \<Rightarrow>
          \<lparr>effects = [Popen p, Communicate b], self_after = self,
           result = Inr (tag_records treetagger_output)\<rparr>)))))"

text \<open>What a log says was started, and what was written to a child.\<close>

fun started :: "effect list \<Rightarrow> popen_call list" where
  "started [] = []"
| "started (Popen p # es) = p # started es"
| "started (e # es) = started es"

fun written :: "effect list \<Rightarrow> pybytes list" where
  "written [] = []"
| "written (Communicate b # es) = b # written es"
| "written (e # es) = written es"

fun printed :: "effect list \<Rightarrow> pyobj list" where
  "printed [] = []"
| "printed (Print x # es) = x # printed es"
| "printed (e # es) = printed es"

subsection \<open>The splitting as the specification words it\<close>

text \<open>
  The specification has the output split "on newline boundaries (trimming a single trailing
  newline)" and then each line on tabs. \<open>spec_records\<close> follows these words, not the code.
\<close>

definition spec_trim_newline :: "pystr \<Rightarrow> pystr" where
  "spec_trim_newline s = (if s \<noteq> [] \<and> last s = NL then butlast s else s)"

definition spec_records :: "pystr \<Rightarrow> pystr list list" where
  "spec_records s = map (split TAB) (split NL (spec_trim_newline s))"

text \<open>The tab-separated fields of a line: one more than its tabs.\<close>

definition field_count :: "pystr \<Rightarrow> nat" where
  "field_count line = Suc (count_list line TAB)"


subsection \<open>Environments and adapters to run the model on\<close>

text \<open>
  A child that ignores its input and ends with a given status, output and diagnostics, and a
  child that answers each line of its input with the line, a tab, \<^verbatim>\<open>XX\<close>, a tab and the line
  again (the stub of the specification's example). The lines of an input are its pieces
  between newlines; a newline at the end of the input ends the last line and opens no other.
\<close>

definition stub_env :: "int \<Rightarrow> pybytes \<Rightarrow> pybytes \<Rightarrow> os_env" where
  "stub_env rc out err =
     \<lparr>find_binary = (\<lambda>name home verbose. Inr (ustr ''/usr/bin/'' @ name)),
      launch = (\<lambda>p. None),
      communicate = (\<lambda>p b. \<lparr>returncode = rc, stdout_data = out, stderr_data = err\<rparr>)\<rparr>"

definition input_lines :: "pybytes \<Rightarrow> pybytes list" where
  "input_lines input =
     (if input = [] then []
      else if last input = 10 then split 10 (butlast input)
      else split 10 input)"

definition echo_stub :: "pybytes \<Rightarrow> pybytes" where
  "echo_stub input =
     concat (map (\<lambda>l. l @ [9] @ bstr ''XX'' @ [9] @ l @ [10]) (input_lines input))"

text \<open>A child that copies its input to its output.\<close>

definition cat_env :: os_env where
  "cat_env =
     \<lparr>find_binary = (\<lambda>name home verbose. Inr (ustr ''/usr/bin/'' @ name)),
      launch = (\<lambda>p. None),
      communicate = (\<lambda>p b. \<lparr>returncode = 0, stdout_data = b, stderr_data = []\<rparr>)\<rparr>"

definition echo_env :: os_env where
  "echo_env =
     \<lparr>find_binary = (\<lambda>name home verbose. Inr (ustr ''/usr/bin/'' @ name)),
      launch = (\<lambda>p. None),
      communicate = (\<lambda>p b. \<lparr>returncode = 0, stdout_data = echo_stub b, stderr_data = []\<rparr>)\<rparr>"

definition no_binary_env :: os_env where
  "no_binary_env =
     \<lparr>find_binary = (\<lambda>name home verbose. Inl (LookupError (ustr ''no such binary''))),
      launch = (\<lambda>p. Some (OSError (ustr ''No such file or directory''))),
      communicate = (\<lambda>p b. \<lparr>returncode = 127, stdout_data = [], stderr_data = []\<rparr>)\<rparr>"

definition english_tagger :: TreeTagger where
  "english_tagger =
     \<lparr>abbr_list = None, encoding_of = ustr ''utf-8'',
      treetagger_bin = ustr ''/usr/bin/tree-tagger-english''\<rparr>"

definition latin_tagger :: TreeTagger where
  "latin_tagger =
     \<lparr>abbr_list = Some (ustr ''abbr.txt''), encoding_of = ustr ''latin-1'',
      treetagger_bin = ustr ''/usr/bin/tree-tagger-latin''\<rparr>"

section \<open>Properties\<close>

subsection \<open>Auxiliary facts\<close>

lemma utf8_decode_Nil: "utf8_decode [] = Inr []"
  by (subst utf8_decode.simps) simp

lemma utf8_decode_Cons:
  "utf8_decode (b # bs) =
     (case utf8_decode_char (b # bs) of
        None \<Rightarrow> Inl UnicodeDecodeError
      | Some (c, r) \<Rightarrow> (case utf8_decode r of Inl e \<Rightarrow> Inl e | Inr cs \<Rightarrow> Inr (c # cs)))"
  by (subst utf8_decode.simps) simp

lemmas codec_eval =
  utf8_decode_Nil utf8_decode_Cons utf8_decode_char_def cont_def low6_def
  utf8_encode_char_def latin1_encode_def latin1_decode_def encode_def decode_def
  tUoB3_default_encoding_def ustr_def bstr_def

lemmas strip_eval = strip_def lstrip_def rstrip_def isspace_def NL_def TAB_def

lemma utf8_decode_error: "utf8_decode bs = Inl e \<Longrightarrow> e = UnicodeDecodeError"
proof (induction "length bs" arbitrary: bs rule: less_induct)
  case less
  show ?case
  proof (cases bs)
    case Nil
    with less.prems show ?thesis by (simp add: utf8_decode_Nil)
  next
    case (Cons b bs')
    show ?thesis
    proof (cases "utf8_decode_char bs")
      case None
      with less.prems Cons show ?thesis by (simp add: utf8_decode_Cons)
    next
      case (Some cr)
      obtain c r where cr: "cr = (c, r)" by (cases cr)
      from Some cr have shorter: "length r < length bs"
        by (simp add: utf8_decode_char_shorter)
      from less.prems Cons Some cr have "utf8_decode r = Inl e"
        by (simp add: utf8_decode_Cons split: sum.splits)
      with less.hyps [OF shorter] show ?thesis .
    qed
  qed
qed

lemma tag_decode_bytes: "tag_decode encoding (Bytes b) = utf8_decode b"
  by (simp add: decode_def tUoB3_default_encoding_def)

lemma tag_loop_append: "tag_loop ls acc = acc @ map (split TAB) ls"
  by (induction ls arbitrary: acc) simp_all

lemma tag_records_map: "tag_records s = map (split TAB) (split NL (strip s))"
  by (simp add: tag_records_def tag_loop_append)

lemma split_not_Nil: "split sep xs \<noteq> []"
  by (induction xs) (simp_all split: list.splits)

subsection \<open>Splitting, joining and stripping\<close>




lemma join_split: "join sep (split sep xs) = xs"
proof (induction xs)
  case Nil
  show ?case by simp
next
  case (Cons x xs)
  obtain p ps where ps: "split sep xs = p # ps"
    using split_not_Nil [of sep xs] by (cases "split sep xs") auto
  with Cons show ?case by (cases ps) auto
qed

lemma length_split: "length (split sep xs) = Suc (count_list xs sep)"
  by (induction xs) (auto split: list.splits simp: split_not_Nil)




lemma lstrip_blank_append: "list_all isspace ws \<Longrightarrow> lstrip (ws @ s) = lstrip s"
  by (simp add: lstrip_def dropWhile_append2 list_all_iff)


lemma rstrip_append_blank: "list_all isspace ws \<Longrightarrow> rstrip (s @ ws) = rstrip s"
  by (auto simp: rstrip_def list_all_iff intro: dropWhile_append2)


lemma lstrip_id: "s = [] \<or> \<not> isspace (hd s) \<Longrightarrow> lstrip s = s"
  by (cases s) (auto simp: lstrip_def)

lemma rstrip_id: "s = [] \<or> \<not> isspace (last s) \<Longrightarrow> rstrip s = s"
  by (cases s rule: rev_cases) (auto simp: rstrip_def)

lemma strip_core:
  assumes "list_all isspace ws1" and "list_all isspace ws2"
    and "core = [] \<or> (\<not> isspace (hd core) \<and> \<not> isspace (last core))"
  shows "strip (ws1 @ core @ ws2) = core"
proof (cases "core = []")
  case True
  from assms(2) have "lstrip ws2 = []"
    by (simp add: lstrip_def list_all_iff)
  with True assms(1) show ?thesis
    by (simp add: strip_def lstrip_blank_append rstrip_def)
next
  case False
  with assms(3) have "lstrip (core @ ws2) = core @ ws2"
    by (intro lstrip_id) simp
  with assms False show ?thesis
    by (simp add: strip_def lstrip_blank_append rstrip_append_blank rstrip_id)
qed





lemma lstrip_keeps_nonblank: "\<exists>c\<in>set l. \<not> isspace c \<Longrightarrow> \<exists>c\<in>set (lstrip l). \<not> isspace c"
proof (induction l)
  case Nil then show ?case by simp
next
  case (Cons a l) then show ?case by (cases "isspace a") (auto simp: lstrip_def)
qed





subsection \<open>Runs of the method\<close>

text \<open>The run of \<^verbatim>\<open>tag\<close> when the child starts, ends with status 0 and its output decodes.\<close>

lemma tag_success:
  assumes "tag_input self sents = Inr (Bytes b)"
    and "launch env (tag_popen self) = None"
    and "returncode (communicate env (tag_popen self) b) = 0"
    and "utf8_decode (stdout_data (communicate env (tag_popen self) b)) = Inr s"
  shows "tag env self sents =
           \<lparr>effects = [Popen (tag_popen self), Communicate b], self_after = self,
            result = Inr (map (split TAB) (split NL (strip s)))\<rparr>"
  using assms by (simp add: tag_def Let_def tag_decode_bytes tag_records_map del: tag_decode.simps)

lemma tag_failure:
  assumes "tag_input self sents = Inr (Bytes b)"
    and "launch env (tag_popen self) = None"
    and "returncode (communicate env (tag_popen self) b) \<noteq> 0"
  shows "tag env self sents =
           \<lparr>effects = [Popen (tag_popen self), Communicate b,
                       Print (Bytes (stderr_data (communicate env (tag_popen self) b)))],
            self_after = self,
            result = Inl (OSError (ustr ''TreeTagger command failed!''))\<rparr>"
  using assms by (simp add: tag_def Let_def raise_def)

lemma init_Inr:
  assumes "init_result (init env path_to_home language encoding verbose abbreviation_list)
             = Inr self"
  shows "known_pair encoding language"
    and "encoding_of self = encoding"
    and "abbr_list self = abbreviation_list"
    and "find_binary env (ustr ''tree-tagger-'' @ language) path_to_home verbose
           = Inr (treetagger_bin self)"
  using assms by (auto simp: init_def Let_def split: if_splits sum.splits)

lemma known_pair_encoding:
  "known_pair encoding language \<Longrightarrow> encoding = ustr ''utf-8'' \<or> encoding = ustr ''latin-1''"
  by (auto simp: known_pair_def treetagger_languages_def split: if_splits option.splits)

text \<open>The two adapters are what the constructor returns.\<close>

lemma english_tagger_init:
  "init_result (init (stub_env rc out err) None (ustr ''english'') (ustr ''utf-8'') False None)
     = Inr english_tagger"
  by (simp add: init_def known_pair_def treetagger_languages_def stub_env_def
      english_tagger_def ustr_def Let_def)

lemma latin_tagger_init:
  "init_result (init (stub_env rc out err) None (ustr ''latin'') (ustr ''latin-1'') False
      (Some (ustr ''abbr.txt''))) = Inr latin_tagger"
  by (simp add: init_def known_pair_def treetagger_languages_def stub_env_def
      latin_tagger_def ustr_def Let_def)

lemma the_strs_map_Str: "the_strs (map Str tokens) = Some tokens"
  by (induction tokens) simp_all

lemma split_no_empty_record: "[] \<notin> set (map (split sep) ls)"
  by (auto simp: split_not_Nil [THEN not_sym])

lemmas run_eval =
  tag_def tag_input_def stub_env_def echo_env_def echo_stub_def input_lines_def cat_env_def
  no_binary_env_def
  english_tagger_def latin_tagger_def Let_def tag_popen_def raise_def tag_decode_bytes
  codec_eval tag_records_map strip_eval

subsection \<open>The records of a call\<close>

text \<open>
  C10: every call of \<^verbatim>\<open>tag\<close> that returns, returns a list with at least one record (and no
  record without a field); a child that ends with status 0 and has written nothing gives
  the one record with the one empty field, \<^verbatim>\<open>[['']]\<close>.
\<close>

theorem tag_never_empty:
  "(\<forall>records. result (tag env self sents) = Inr records
      \<longrightarrow> records \<noteq> [] \<and> [] \<notin> set records) \<and>
   (tag_input self sents = Inr (Bytes b) \<and> launch env (tag_popen self) = None \<and>
    returncode (communicate env (tag_popen self) b) = 0 \<and>
    stdout_data (communicate env (tag_popen self) b) = []
    \<longrightarrow> result (tag env self sents) = Inr [[[]]])"
proof (intro conjI allI impI)
  fix records
  assume "result (tag env self sents) = Inr records"
  then obtain s where s: "records = map (split TAB) (split NL (strip s))"
    by (auto simp: tag_def Let_def raise_def tag_records_map
        split: sum.splits option.splits pyobj.splits if_splits)
  show "records \<noteq> []" by (simp add: s split_not_Nil)
  show "[] \<notin> set records" unfolding s by (rule split_no_empty_record)
next
  assume a: "tag_input self sents = Inr (Bytes b) \<and> launch env (tag_popen self) = None \<and>
    returncode (communicate env (tag_popen self) b) = 0 \<and>
    stdout_data (communicate env (tag_popen self) b) = []"
  then have "utf8_decode (stdout_data (communicate env (tag_popen self) b)) = Inr []"
    by (simp add: utf8_decode_Nil)
  with a have "tag env self sents =
           \<lparr>effects = [Popen (tag_popen self), Communicate b], self_after = self,
            result = Inr (map (split TAB) (split NL (strip [])))\<rparr>"
    by (intro tag_success) simp_all
  then show "result (tag env self sents) = Inr [[[]]]"
    by (simp add: strip_def lstrip_def rstrip_def)
qed

theorem tag_never_empty_witness:
  "result (tag (stub_env 0 [] []) english_tagger (ListArg [])) = Inr [[[]]] \<and>
   [[[]]] \<noteq> ([] :: pystr list list)"
  using tag_never_empty [of "stub_env 0 [] []" english_tagger "ListArg []" "[]"]
  by (simp add: run_eval del: tag_decode.simps)

subsection \<open>The constructor\<close>

text \<open>
  C5: for a language and an encoding that are no pair of the language table (the encoding is
  no key of the table, or the language is not in the list under that key) the constructor
  raises \<^verbatim>\<open>LookupError\<close>, whatever \<^verbatim>\<open>find_binary\<close> would answer, and without any call to the
  outside before it: no search for the binary, no child.
\<close>

theorem init_unknown_pair:
  assumes "map_of treetagger_languages encoding = None \<or>
           (\<exists>languages. map_of treetagger_languages encoding = Some languages \<and>
              language \<notin> set languages)"
  shows "init_effects (init env path_to_home language encoding verbose abbreviation_list) = []
       \<and> init_result (init env path_to_home language encoding verbose abbreviation_list) =
           Inl (LookupError (ustr ''NLTK was unable to find the TreeTagger bin!''))"
  using assms by (auto simp: init_def known_pair_def)

theorem init_unknown_pair_witness:
  "init (stub_env 0 [] []) None (ustr ''klingon'') (ustr ''utf-8'') False None =
     \<lparr>init_effects = [],
      init_result =
        Inl (LookupError (ustr ''NLTK was unable to find the TreeTagger bin!''))\<rparr> \<and>
   init no_binary_env None (ustr ''english'') (ustr ''ascii'') False None =
     \<lparr>init_effects = [],
      init_result =
        Inl (LookupError (ustr ''NLTK was unable to find the TreeTagger bin!''))\<rparr>"
  using
    init_unknown_pair [of "ustr ''utf-8''" "ustr ''klingon''" "stub_env 0 [] []" None False None]
    init_unknown_pair [of "ustr ''ascii''" "ustr ''english''" no_binary_env None False None]
  by (cases "init (stub_env 0 [] []) None (ustr ''klingon'') (ustr ''utf-8'') False None";
      cases "init no_binary_env None (ustr ''english'') (ustr ''ascii'') False None")
     (simp add: treetagger_languages_def ustr_def)

subsection \<open>The fields of the adapter\<close>

text \<open>
  C9: a call of \<^verbatim>\<open>tag\<close> leaves the adapter as it was: after the call the encoding and the
  abbreviation list are those given to the constructor and the path of the binary is the
  one \<^verbatim>\<open>find_binary\<close> returned to it, whatever the call did and however it ended. The
  constructor and \<^verbatim>\<open>tag\<close> are the only operations of the class.
\<close>

theorem tag_leaves_fields:
  assumes "init_result (init env0 path_to_home language encoding verbose abbreviation_list)
             = Inr self"
  shows "self_after (tag env self sents) = self \<and>
         encoding_of (self_after (tag env self sents)) = encoding \<and>
         abbr_list (self_after (tag env self sents)) = abbreviation_list \<and>
         Inr (treetagger_bin (self_after (tag env self sents)))
           = find_binary env0 (ustr ''tree-tagger-'' @ language) path_to_home verbose"
proof -
  have "self_after (tag env self sents) = self"
    by (simp add: tag_def Let_def raise_def
        split: sum.splits option.splits pyobj.splits)
  with init_Inr [OF assms] show ?thesis by simp
qed

theorem tag_leaves_fields_witness:
  "self_after (tag echo_env latin_tagger (ObjArg (Str (ustr ''arma'')))) = latin_tagger \<and>
   encoding_of (self_after (tag echo_env latin_tagger (ObjArg (Str (ustr ''arma'')))))
     = ustr ''latin-1''"
  using tag_leaves_fields [OF latin_tagger_init [of 0 "[]" "[]"],
      where env = echo_env and sents = "ObjArg (Str (ustr ''arma''))"]
  by (simp add: latin_tagger_def)

subsection \<open>The child process\<close>

text \<open>
  C7: a call of \<^verbatim>\<open>tag\<close> starts no child when the preparation of the input raises, and
  otherwise exactly one, without a shell, with pipes for its standard input, output and error,
  and with the argument list \<^verbatim>\<open>[binary]\<close> when the adapter has no abbreviation list and
  \<^verbatim>\<open>[binary, "-a", abbreviation_list]\<close> when it has one.
\<close>

theorem tag_popen_arguments:
  "started (effects (tag env self sents)) =
     (case tag_input self sents of
        Inl e \<Rightarrow> []
      | Inr x \<Rightarrow>
          [\<lparr>args = (case abbr_list self of
                      None \<Rightarrow> [treetagger_bin self]
                    | Some a \<Rightarrow> [treetagger_bin self, ustr ''-a'', a]),
            shell = False, stdin = PIPE, stdout = PIPE, stderr = PIPE\<rparr>])"
  by (simp add: tag_def Let_def raise_def tag_popen_def
      split: sum.splits option.splits pyobj.splits)

theorem tag_popen_arguments_witness:
  "started (effects (tag echo_env latin_tagger (ObjArg (Str (ustr ''arma''))))) =
     [\<lparr>args = [ustr ''/usr/bin/tree-tagger-latin'', ustr ''-a'', ustr ''abbr.txt''],
       shell = False, stdin = PIPE, stdout = PIPE, stderr = PIPE\<rparr>] \<and>
   started (effects (tag echo_env english_tagger (ObjArg (Str (ustr ''arma''))))) =
     [\<lparr>args = [ustr ''/usr/bin/tree-tagger-english''],
       shell = False, stdin = PIPE, stdout = PIPE, stderr = PIPE\<rparr>]"
  using tag_popen_arguments [of echo_env latin_tagger "ObjArg (Str (ustr ''arma''))"]
    tag_popen_arguments [of echo_env english_tagger "ObjArg (Str (ustr ''arma''))"]
  by (simp add: tag_input_def latin_tagger_def english_tagger_def codec_eval)

text \<open>
  C8: on an adapter that the constructor returned, and when the child starts, the octets
  written to the child are: for a list of strings, the strings joined with one newline
  between two neighbours and encoded with the encoding of the adapter; for one string, the
  string encoded with that encoding; for a \<^verbatim>\<open>bytes\<close> object, the object as it is. Nothing is
  written when the encoding raises.
\<close>

theorem tag_stdin_bytes:
  assumes "init_result (init env0 path_to_home language encoding verbose abbreviation_list)
             = Inr self"
    and "launch env (tag_popen self) = None"
  shows "written (effects (tag env self (ListArg (map Str tokens)))) =
           (case encode encoding (join NL tokens) of Inl e \<Rightarrow> [] | Inr b \<Rightarrow> [b]) \<and>
         written (effects (tag env self (ObjArg (Str s)))) =
           (case encode encoding s of Inl e \<Rightarrow> [] | Inr b \<Rightarrow> [b]) \<and>
         written (effects (tag env self (ObjArg (Bytes x)))) = [x]"
proof -
  from init_Inr [OF assms(1)] have enc: "encoding_of self = encoding" "encoding \<noteq> []"
    using known_pair_encoding [of encoding language] by (auto simp: ustr_def)
  have any: "written (effects (tag env self sents)) =
      (case tag_input self sents of Inr (Bytes b) \<Rightarrow> [b] | _ \<Rightarrow> [])" for sents
    using assms(2)
    by (simp add: tag_def Let_def raise_def split: sum.splits pyobj.splits)
  show ?thesis
    by (simp add: any tag_input_def enc the_strs_map_Str split: sum.splits)
qed

theorem tag_stdin_bytes_witness:
  "written (effects (tag echo_env latin_tagger
      (ListArg (map Str [ustr ''caf'' @ [0xE9], ustr ''b''])))) =
      [bstr ''caf'' @ [0xE9, 10] @ bstr ''b''] \<and>
   written (effects (tag echo_env english_tagger (ObjArg (Str (ustr ''caf'' @ [0xE9]))))) =
      [bstr ''caf'' @ [0xC3, 0xA9]] \<and>
   written (effects (tag echo_env english_tagger (ObjArg (Bytes [0xFF])))) = [[0xFF]]"
  using
    tag_stdin_bytes [OF latin_tagger_init [of 0 "[]" "[]"], where env = echo_env
      and tokens = "[ustr ''caf'' @ [0xE9], ustr ''b'']"]
    tag_stdin_bytes [OF english_tagger_init [of 0 "[]" "[]"], where env = echo_env
      and s = "ustr ''caf'' @ [0xE9]" and x = "[0xFF]"]
  by (simp add: echo_env_def english_tagger_def latin_tagger_def tag_popen_def codec_eval
      NL_def)

text \<open>
  C6, as the code has it: when the child has ended with a status other than 0, the call
  prints the captured standard error and raises \<^verbatim>\<open>OSError\<close> with the fixed message
  \<^verbatim>\<open>TreeTagger command failed!\<close>, so it returns no records; when the status is 0, the call
  prints nothing and raises no \<^verbatim>\<open>OSError\<close>. The exception holds the message only: the
  standard error is printed, not carried.
\<close>

theorem tag_exit_status:
  assumes "tag_input self sents = Inr (Bytes b)"
    and "launch env (tag_popen self) = None"
  shows "(returncode (communicate env (tag_popen self) b) \<noteq> 0 \<longrightarrow>
            result (tag env self sents) =
              Inl (OSError (ustr ''TreeTagger command failed!'')) \<and>
            printed (effects (tag env self sents)) =
              [Bytes (stderr_data (communicate env (tag_popen self) b))]) \<and>
         (returncode (communicate env (tag_popen self) b) = 0 \<longrightarrow>
            (\<forall>e. result (tag env self sents) = Inl e \<longrightarrow> \<not> is_OSError e) \<and>
            printed (effects (tag env self sents)) = [])"
proof (intro conjI impI allI)
  assume "returncode (communicate env (tag_popen self) b) \<noteq> 0"
  note f = tag_failure [OF assms this]
  show "result (tag env self sents) = Inl (OSError (ustr ''TreeTagger command failed!''))"
    by (simp add: f)
  show "printed (effects (tag env self sents)) =
              [Bytes (stderr_data (communicate env (tag_popen self) b))]"
    by (simp add: f)
next
  assume z: "returncode (communicate env (tag_popen self) b) = 0"
  show "printed (effects (tag env self sents)) = []"
    using assms z
    by (simp add: tag_def Let_def raise_def split: sum.splits)
  fix e
  assume "result (tag env self sents) = Inl e"
  with assms z have "utf8_decode (stdout_data (communicate env (tag_popen self) b)) = Inl e"
    by (simp add: tag_def Let_def raise_def tag_decode_bytes del: tag_decode.simps
        split: sum.splits)
  then have "e = UnicodeDecodeError" by (rule utf8_decode_error)
  then show "\<not> is_OSError e" by simp
qed

theorem tag_exit_status_witness:
  "result (tag (stub_env 1 (bstr ''a'') (bstr ''boom'')) english_tagger
      (ObjArg (Bytes (bstr ''a'')))) = Inl (OSError (ustr ''TreeTagger command failed!'')) \<and>
   printed (effects (tag (stub_env 1 (bstr ''a'') (bstr ''boom'')) english_tagger
      (ObjArg (Bytes (bstr ''a''))))) = [Bytes (bstr ''boom'')] \<and>
   result (tag (stub_env 0 (bstr ''a'') (bstr ''boom'')) english_tagger
      (ObjArg (Bytes (bstr ''a'')))) = Inr [[ustr ''a'']]"
  using
    tag_exit_status [of english_tagger "ObjArg (Bytes (bstr ''a''))" "bstr ''a''"
      "stub_env 1 (bstr ''a'') (bstr ''boom'')"]
    tag_exit_status [of english_tagger "ObjArg (Bytes (bstr ''a''))" "bstr ''a''"
      "stub_env 0 (bstr ''a'') (bstr ''boom'')"]
  by (simp add: run_eval del: tag_decode.simps)

text \<open>
  C6 as stated fails: the child ends with status 1 and the standard error
  \<^verbatim>\<open>boom\<close>; the exception raised is \<^verbatim>\<open>OSError('TreeTagger command failed!')\<close>, and its
  arguments hold the standard error neither as octets nor as text.
\<close>

theorem tag_oserror_without_stderr:
  "result (tag (stub_env 1 [] (bstr ''boom'')) english_tagger (ListArg [Str (ustr ''a'')]))
     = Inl (OSError (ustr ''TreeTagger command failed!'')) \<and>
   Bytes (bstr ''boom'') \<notin> set (error_args (OSError (ustr ''TreeTagger command failed!''))) \<and>
   Str (ustr ''boom'') \<notin> set (error_args (OSError (ustr ''TreeTagger command failed!'')))"
  by (simp add: run_eval del: tag_decode.simps)

subsection \<open>The splitting of the output\<close>

text \<open>
  C2, as the code has it: \<^verbatim>\<open>tag\<close> strips all the white space at the start and at the end
  of the decoded output (newlines, tabs, blanks and the rest, however many), then splits what
  is left at the newlines and each line at the tabs. Where the output has no white space at
  its start and ends with one newline after a character that is no white space, this is the
  splitting of the specification, which takes one newline from the end.
\<close>

theorem tag_strips_output:
  assumes "tag_input self sents = Inr (Bytes b)"
    and "launch env (tag_popen self) = None"
    and "returncode (communicate env (tag_popen self) b) = 0"
    and "utf8_decode (stdout_data (communicate env (tag_popen self) b))
           = Inr (ws1 @ core @ ws2)"
    and "list_all isspace ws1" and "list_all isspace ws2"
    and "core = [] \<or> (\<not> isspace (hd core) \<and> \<not> isspace (last core))"
  shows "result (tag env self sents) = Inr (map (split TAB) (split NL core)) \<and>
         (ws1 = [] \<and> ws2 = [NL] \<longrightarrow>
            result (tag env self sents) = Inr (spec_records (ws1 @ core @ ws2)))"
proof -
  have "strip (ws1 @ core @ ws2) = core"
    using assms(5-7) by (rule strip_core)
  with tag_success [OF assms(1-4)]
  have r: "result (tag env self sents) = Inr (map (split TAB) (split NL core))"
    by simp
  have "spec_records (core @ [NL]) = map (split TAB) (split NL core)"
    by (simp add: spec_records_def spec_trim_newline_def)
  with r show ?thesis by simp
qed

theorem tag_strips_output_witness:
  "result (tag (stub_env 0 ([32, 10] @ bstr ''a'' @ [9] @ bstr ''b'' @ [10] @ bstr ''c''
       @ [32, 10, 10]) []) english_tagger (ObjArg (Bytes []))) =
     Inr [[ustr ''a'', ustr ''b''], [ustr ''c'']] \<and>
   result (tag (stub_env 0 (bstr ''a'' @ [9] @ bstr ''b'' @ [10] @ bstr ''c'' @ [10]) [])
       english_tagger (ObjArg (Bytes []))) =
     Inr (spec_records (ustr ''a'' @ [TAB] @ ustr ''b'' @ [NL] @ ustr ''c'' @ [NL]))"
  using
    tag_strips_output [of english_tagger "ObjArg (Bytes [])" "[]"
      "stub_env 0 ([32, 10] @ bstr ''a'' @ [9] @ bstr ''b'' @ [10] @ bstr ''c''
         @ [32, 10, 10]) []"
      "[32, NL]" "ustr ''a'' @ [TAB] @ ustr ''b'' @ [NL] @ ustr ''c''" "[32, NL, NL]"]
    tag_strips_output [of english_tagger "ObjArg (Bytes [])" "[]"
      "stub_env 0 (bstr ''a'' @ [9] @ bstr ''b'' @ [10] @ bstr ''c'' @ [10]) []"
      "[]" "ustr ''a'' @ [TAB] @ ustr ''b'' @ [NL] @ ustr ''c''" "[NL]"]
  by (simp add: tag_input_def stub_env_def english_tagger_def tag_popen_def codec_eval
      strip_eval spec_records_def spec_trim_newline_def)

text \<open>
  C2 as stated fails. On the output \<^verbatim>\<open>a\<close> with two newlines the specification's
  splitting keeps an empty record for the second newline, and \<^verbatim>\<open>tag\<close> returns the one
  record of \<^verbatim>\<open>a\<close>; on the output of a blank, \<^verbatim>\<open>a\<close>, a blank and a newline it keeps the blanks
  in the field, and \<^verbatim>\<open>tag\<close> returns the field \<^verbatim>\<open>a\<close>.
\<close>

theorem tag_strips_all_outer_whitespace:
  "result (tag (stub_env 0 (bstr ''a'' @ [10, 10]) []) english_tagger
      (ListArg [Str (ustr ''a'')])) = Inr [[ustr ''a'']] \<and>
   spec_records (ustr ''a'' @ [NL, NL]) = [[ustr ''a''], [[]]] \<and>
   result (tag (stub_env 0 (bstr '' a '' @ [10]) []) english_tagger
      (ListArg [Str (ustr ''a'')])) = Inr [[ustr ''a'']] \<and>
   spec_records (ustr '' a '' @ [NL]) = [[ustr '' a '']]"
  by (simp add: run_eval spec_records_def spec_trim_newline_def del: tag_decode.simps)

text \<open>
  C3, as the code has it: the records of a call are, in order, those of the lines of the
  stripped output; each record has as many fields as its line has tab-separated fields (one
  more than its tabs), and the fields joined with tabs are the line, so no field of such a
  line is dropped or merged, also where the line begins or ends with a tab. The lines are
  those of the output after the strip: tabs at the very start and at the very end of the
  raw output are gone before the split.
\<close>

theorem tag_field_counts:
  assumes "tag_input self sents = Inr (Bytes b)"
    and "launch env (tag_popen self) = None"
    and "returncode (communicate env (tag_popen self) b) = 0"
    and "utf8_decode (stdout_data (communicate env (tag_popen self) b)) = Inr s"
  shows "\<exists>records. result (tag env self sents) = Inr records \<and>
           length records = length (split NL (strip s)) \<and>
           (\<forall>i<length records.
              length (records ! i) = field_count (split NL (strip s) ! i) \<and>
              join TAB (records ! i) = split NL (strip s) ! i)"
  using tag_success [OF assms]
  by (simp add: field_count_def length_split join_split)

theorem tag_field_counts_witness:
  "result (tag (stub_env 0 ([9] @ bstr ''a'' @ [9, 9] @ bstr ''b'' @ [9, 10] @ bstr ''c''
       @ [9] @ bstr ''d'' @ [10, 9] @ bstr ''e'' @ [9, 10]) []) english_tagger
       (ObjArg (Bytes []))) =
     Inr [[ustr ''a'', [], ustr ''b'', []], [ustr ''c'', ustr ''d''], [[], ustr ''e'']] \<and>
   field_count (ustr ''a'' @ [TAB, TAB] @ ustr ''b'' @ [TAB]) = 4"
  using tag_field_counts [of english_tagger "ObjArg (Bytes [])" "[]"
      "stub_env 0 ([9] @ bstr ''a'' @ [9, 9] @ bstr ''b'' @ [9, 10] @ bstr ''c''
       @ [9] @ bstr ''d'' @ [10, 9] @ bstr ''e'' @ [9, 10]) []"
      "[TAB] @ ustr ''a'' @ [TAB, TAB] @ ustr ''b'' @ [TAB, NL] @ ustr ''c''
       @ [TAB] @ ustr ''d'' @ [NL, TAB] @ ustr ''e'' @ [TAB, NL]"]
  by (simp add: run_eval field_count_def del: tag_decode.simps)

text \<open>
  C3 as stated fails on the last and on the first line of the output. The line
  \<^verbatim>\<open>a\<close>, tab, \<^verbatim>\<open>b\<close>, tab has three fields, the last one empty, and its record has two; the
  line tab, \<^verbatim>\<open>a\<close> has two fields, the first one empty, and its record has one.
\<close>

theorem tag_drops_outer_empty_fields:
  "result (tag (stub_env 0 (bstr ''a'' @ [9] @ bstr ''b'' @ [9, 10]) []) english_tagger
      (ListArg [Str (ustr ''a'')])) = Inr [[ustr ''a'', ustr ''b'']] \<and>
   field_count (ustr ''a'' @ [TAB] @ ustr ''b'' @ [TAB]) = 3 \<and>
   result (tag (stub_env 0 ([9] @ bstr ''a'' @ [10]) []) english_tagger
      (ListArg [Str (ustr ''a'')])) = Inr [[ustr ''a'']] \<and>
   field_count ([TAB] @ ustr ''a'') = 2"
  by (simp add: run_eval field_count_def del: tag_decode.simps)




subsection \<open>The decoding of the output\<close>

text \<open>
  C1 at a failing input. The adapter is the one for Latin with the encoding \<^verbatim>\<open>latin-1\<close>.
  The child writes \<^verbatim>\<open>caf\<close>, the octet 0xE9, a tab, \<^verbatim>\<open>NN\<close> and a newline: Latin-1 reads the
  octet as U+00E9, but \<^verbatim>\<open>tag\<close> calls \<^verbatim>\<open>tUoB3\<close> without the encoding, decodes as UTF-8 and
  raises \<^verbatim>\<open>UnicodeDecodeError\<close>. And where the child writes the octets 0xC3 0xA9, \<^verbatim>\<open>tag\<close>
  returns the one code point U+00E9 where Latin-1 reads the two code points U+00C3 U+00A9.
\<close>

theorem tag_decodes_utf8_on_latin1_adapter:
  "result (tag (stub_env 0 (bstr ''caf'' @ [0xE9, 9] @ bstr ''NN'' @ [10]) []) latin_tagger
      (ObjArg (Str (ustr ''caf'' @ [0xE9])))) = Inl UnicodeDecodeError \<and>
   decode (encoding_of latin_tagger) (bstr ''caf'' @ [0xE9, 9] @ bstr ''NN'' @ [10]) =
     Inr (ustr ''caf'' @ [0xE9, TAB] @ ustr ''NN'' @ [NL]) \<and>
   result (tag (stub_env 0 [0xC3, 0xA9] []) latin_tagger (ObjArg (Str [0xE9])))
     = Inr [[[0xE9]]] \<and>
   decode (encoding_of latin_tagger) [0xC3, 0xA9] = Inr [0xC3, 0xA9]"
  by (simp add: run_eval del: tag_decode.simps)

end
